theory Spec2Isabelle
  imports Complex_Main
begin

section \<open>Search-and-matching equilibrium solver: the notebook's three functions\<close>

text \<open>
  The notebook \<^verbatim>\<open>Notebooks/ModeloDMPProdEspecifica.ipynb\<close> defines \<^verbatim>\<open>TyR\<close> (the
  reservation-productivity update), \<^verbatim>\<open>JCC\<close> (the job-creation residual) and
  \<^verbatim>\<open>SolveModel\<close> (two nested damped loops followed by a closed form). They are embedded
  here as HOL functions.

  \<^item> Numbers are real numbers: rounding of the machine floats is not part of the model.
  \<^item> The library routines the notebook calls (\<^verbatim>\<open>scipy.integrate.quad\<close>,
    \<^verbatim>\<open>scipy.optimize.root\<close>) and the distribution object \<^verbatim>\<open>F\<close> (its \<^verbatim>\<open>pdf\<close> and
    \<^verbatim>\<open>cdf\<close>) are not part of the notebook; they are parameters of the model.
  \<^item> Operations that yield no real number are results of their own, see \<open>error\<close>.
  \<^item> The \<^verbatim>\<open>while\<close> loops have no iteration bound, so they are partial functions: the
    value \<open>None\<close> stands for a call that never returns.
  \<^item> The \<^verbatim>\<open>print\<close> calls are kept: the console is a list of lines threaded through
    the loops.
\<close>

subsection \<open>Arithmetic that can fail\<close>

text \<open>
  \<open>ZeroDivisionError\<close> and \<open>UnboundLocalError\<close> are the Python exceptions of these names.
  On plain Python numbers a division by zero and a zero base with a negative exponent raise
  \<open>ZeroDivisionError\<close>. \<open>NonReal\<close> marks a float computation that leaves the real numbers
  without raising: a negative base with a fractional exponent (a complex number for Python
  floats, not-a-number for numpy floats), and numpy operands in the two cases above (an
  infinity or not-a-number, with a warning only). The code goes on with such a value; the
  model, being real-valued, follows it no further.
\<close>

datatype error = ZeroDivisionError | UnboundLocalError | NonReal

definition py_div :: "real \<Rightarrow> real \<Rightarrow> error + real" where
  "py_div x y = (if y = 0 then Inl ZeroDivisionError else Inr (x / y))"

text \<open>
  Python's \<^verbatim>\<open>x ** a\<close> on plain numbers. For \<open>0 < x\<close> it is the real power; \<^verbatim>\<open>x ** 0\<close>
  is \<open>1\<close> for every \<open>x\<close>; a negative base has a real power for an integral exponent only.
\<close>

definition py_pow :: "real \<Rightarrow> real \<Rightarrow> error + real" where
  "py_pow x a =
     (if 0 < x then Inr (x powr a)
      else if a = 0 then Inr 1
      else if x = 0 then (if 0 < a then Inr 0 else Inl ZeroDivisionError)
      else if a \<in> \<int> then Inr (x powi \<lfloor>a\<rfloor>)
      else Inl NonReal)"

text \<open>The same power on a numpy float, as returned by the root finder: it never raises.\<close>

definition np_pow :: "real \<Rightarrow> real \<Rightarrow> error + real" where
  "np_pow x a = (case py_pow x a of Inl e \<Rightarrow> Inl NonReal | Inr v \<Rightarrow> Inr v)"

subsection \<open>Parameters and collaborators\<close>

text \<open>
  \<open>dist\<close> is the frozen distribution \<^verbatim>\<open>F\<close>. \<open>prms\<close> is the list
  \<^verbatim>\<open>[b, \<lambda>, A, \<alpha>, \<beta>, r, c, F]\<close> that every function unpacks on entry, in this order.
  \<open>scipy\<close> holds the two library routines: \<open>quad f a\<close> is
  \<^verbatim>\<open>integrate.quad(f, a, np.inf)[0]\<close> and \<open>root f x0\<close> is \<^verbatim>\<open>root(f, x0).x[0]\<close>.
\<close>

record dist =
  pdf :: "real \<Rightarrow> real"
  cdf :: "real \<Rightarrow> real"

record prms =
  prm_b :: real
  prm_lam :: real
  prm_A :: real
  prm_alpha :: real
  prm_beta :: real
  prm_r :: real
  prm_c :: real
  prm_F :: dist

record scipy =
  quad :: "(real \<Rightarrow> real) \<Rightarrow> real \<Rightarrow> real"
  root :: "(real \<Rightarrow> error + real) \<Rightarrow> real \<Rightarrow> error + real"

subsection \<open>The two residuals\<close>

text \<open>
  \<^verbatim>\<open>yr1 = b + ((A*(\<theta>**\<alpha>)*\<beta>)/(\<lambda>+r))*integrate.quad(intf,yr,np.inf)[0]\<close>: the power
  is evaluated first, then the quotient, then the integral.
\<close>

definition TyR :: "scipy \<Rightarrow> real \<Rightarrow> real \<Rightarrow> prms \<Rightarrow> error + real" where
  "TyR L yr th P =
     (let intf = (\<lambda>y. (y - yr) * pdf (prm_F P) y) in
      case py_pow th (prm_alpha P) of Inl e \<Rightarrow> Inl e | Inr p \<Rightarrow>
      case py_div (prm_A P * p * prm_beta P) (prm_lam P + prm_r P) of Inl e \<Rightarrow> Inl e | Inr k \<Rightarrow>
        Inr (prm_b P + k * quad L intf yr))"

text \<open>
  \<^verbatim>\<open>out = c - (A*(\<theta>**\<alpha>)*(1 - \<beta>))/(\<theta>*(r+\<lambda>))*integrate.quad(intf,yr,np.inf)[0]\<close>.
\<close>

definition JCC :: "scipy \<Rightarrow> real \<Rightarrow> real \<Rightarrow> prms \<Rightarrow> error + real" where
  "JCC L th yr P =
     (let intf = (\<lambda>y. (y - yr) * pdf (prm_F P) y) in
      case py_pow th (prm_alpha P) of Inl e \<Rightarrow> Inl e | Inr p \<Rightarrow>
      case py_div (prm_A P * p * (1 - prm_beta P)) (th * (prm_r P + prm_lam P)) of
        Inl e \<Rightarrow> Inl e
      | Inr k \<Rightarrow> Inr (prm_c P - k * quad L intf yr))"

subsection \<open>The solver\<close>

text \<open>
  The console lines, one constructor for each \<^verbatim>\<open>print\<close> of \<^verbatim>\<open>SolveModel\<close>, and its
  local variables. \<^verbatim>\<open>yr1\<close>, \<^verbatim>\<open>yrout\<close> and \<^verbatim>\<open>\<theta>1\<close> are first assigned inside the loops:
  \<open>None\<close> is a variable that is not bound yet.
\<close>

datatype line = Solving_yr | Conv_yr real | Solving_theta | Conv_theta real

record locals =
  yr0 :: real
  th0 :: real
  diftheta :: real
  yr1 :: "real option"
  yrout :: "real option"
  th1 :: "real option"

text \<open>
  The inner loop, entered with the current value of \<^verbatim>\<open>difyr\<close>:
  \<^verbatim>\<open>while difyr>tol: yr1 = TyR(yr0, \<theta>0, prms); difyr = np.abs(yr1-yr0); print(...);
  yr0 = step*yr1 + (1-step)*yr0\<close>.
\<close>

partial_function (option) inner_loop ::
  "scipy \<Rightarrow> prms \<Rightarrow> real \<Rightarrow> real \<Rightarrow> locals \<Rightarrow> real \<Rightarrow> line list \<Rightarrow>
     ((error + locals) \<times> line list) option"
where
  "inner_loop L P tol step s difyr out =
     (if difyr > tol then
        (case TyR L (yr0 s) (th0 s) P of
           Inl e \<Rightarrow> Some (Inl e, out)
         | Inr y \<Rightarrow>
             inner_loop L P tol step
               (s\<lparr>yr1 := Some y, yr0 := step * y + (1 - step) * yr0 s\<rparr>)
               \<bar>y - yr0 s\<bar>
               (out @ [Conv_yr \<bar>y - yr0 s\<bar>]))
      else Some (Inr s, out))"

text \<open>
  The outer loop: \<^verbatim>\<open>while diftheta>tol:\<close> set \<^verbatim>\<open>difyr = 1\<close>, print, run the inner
  loop, \<^verbatim>\<open>yrout = yr1\<close>, print, \<^verbatim>\<open>\<theta>1 = root(lambda x: JCC(x, yrout, prms), \<theta>0).x[0]\<close>,
  \<^verbatim>\<open>diftheta = np.abs(\<theta>1-\<theta>0)\<close>, print, \<^verbatim>\<open>\<theta>0 = step*\<theta>1 + (1-step)*\<theta>0\<close>.
\<close>

partial_function (option) outer_loop ::
  "scipy \<Rightarrow> prms \<Rightarrow> real \<Rightarrow> real \<Rightarrow> locals \<Rightarrow> line list \<Rightarrow>
     ((error + locals) \<times> line list) option"
where
  "outer_loop L P tol step s out =
     (if diftheta s > tol then
        Option.bind (inner_loop L P tol step s 1 (out @ [Solving_yr]))
          (\<lambda>(res, out1). case res of
               Inl e \<Rightarrow> Some (Inl e, out1)
             | Inr s1 \<Rightarrow>
                (case yr1 s1 of
                   None \<Rightarrow> Some (Inl UnboundLocalError, out1)
                 | Some y \<Rightarrow>
                    (case root L (\<lambda>x. JCC L x y P) (th0 s1) of
                       Inl e \<Rightarrow> Some (Inl e, out1 @ [Solving_theta])
                     | Inr t \<Rightarrow>
                        outer_loop L P tol step
                          (s1\<lparr>yrout := Some y, th1 := Some t, diftheta := \<bar>t - th0 s1\<bar>,
                              th0 := step * t + (1 - step) * th0 s1\<rparr>)
                          (out1 @ [Solving_theta, Conv_theta \<bar>t - th0 s1\<bar>]))))
      else Some (Inr s, out))"

text \<open>\<^verbatim>\<open>yr0, \<theta>0 = 1, 1\<close> and \<^verbatim>\<open>diftheta = 1\<close>.\<close>

definition start :: locals where
  "start = \<lparr>yr0 = 1, th0 = 1, diftheta = 1, yr1 = None, yrout = None, th1 = None\<rparr>"

text \<open>
  The lines after the loops: \<^verbatim>\<open>\<theta>out = \<theta>1\<close>,
  \<^verbatim>\<open>uout = \<lambda> / ((A*(\<theta>out**\<alpha>))*(1-F.cdf(yrout)) + \<lambda>)\<close>, \<^verbatim>\<open>vout = \<theta>out*uout\<close>,
  \<^verbatim>\<open>return yrout, \<theta>out, uout, vout\<close>. \<^verbatim>\<open>\<theta>out\<close> is a numpy float, so neither the power
  nor the quotient raises.
\<close>

definition after_loops :: "prms \<Rightarrow> locals \<Rightarrow> error + real \<times> real \<times> real \<times> real" where
  "after_loops P s =
     (case th1 s of None \<Rightarrow> Inl UnboundLocalError | Some thout \<Rightarrow>
      case np_pow thout (prm_alpha P) of Inl e \<Rightarrow> Inl e | Inr p \<Rightarrow>
      case yrout s of None \<Rightarrow> Inl UnboundLocalError | Some y \<Rightarrow>
        (let den = prm_A P * p * (1 - cdf (prm_F P) y) + prm_lam P in
         if den = 0 then Inl NonReal
         else (let uout = prm_lam P / den; vout = thout * uout
               in Inr (y, thout, uout, vout))))"

text \<open>
  \<open>SolveModel L P tol step out\<close>: the call \<^verbatim>\<open>SolveModel(prms, tol, step)\<close> with the
  console holding \<open>out\<close>. It returns the 4-tuple or the exception, and the console after
  the call.
\<close>

definition SolveModel ::
  "scipy \<Rightarrow> prms \<Rightarrow> real \<Rightarrow> real \<Rightarrow> line list \<Rightarrow>
     ((error + real \<times> real \<times> real \<times> real) \<times> line list) option"
where
  "SolveModel L P tol step out =
     Option.bind (outer_loop L P tol step start out)
       (\<lambda>(res, out1).
          Some (case res of Inl e \<Rightarrow> Inl e | Inr s \<Rightarrow> after_loops P s, out1))"

subsection \<open>The solver on Python's store\<close>

text \<open>
  In Python \<^verbatim>\<open>prms\<close> is a reference to a list, an object that any code holding the
  reference can overwrite, and names assigned at module level are mutable too. \<open>world\<close>
  makes that state explicit: \<open>heap\<close> maps an address to the parameter list stored there,
  \<open>globals\<close> holds the module-level variables, \<open>console\<close> the printed lines. The functions
  below are \<^verbatim>\<open>SolveModel\<close> and its two loops once more, now taking the address of the list
  and a world and returning the world they leave. \<^verbatim>\<open>TyR\<close> and \<^verbatim>\<open>JCC\<close> unpack the list on
  every call, so they read the heap as it is at that moment; \<^verbatim>\<open>SolveModel\<close> unpacks it once,
  on entry, and uses these values after the loops. None of the three functions has a
  \<^verbatim>\<open>global\<close> statement or an assignment into the list. The library routines and the
  distribution are functions here, as the interfaces they are used through promise.
\<close>

type_synonym addr = nat

record world =
  heap :: "addr \<Rightarrow> prms"
  globals :: "string \<Rightarrow> real option"
  console :: "line list"

partial_function (option) inner_loop_w ::
  "scipy \<Rightarrow> addr \<Rightarrow> real \<Rightarrow> real \<Rightarrow> locals \<Rightarrow> real \<Rightarrow> world \<Rightarrow>
     ((error + locals) \<times> world) option"
where
  "inner_loop_w L a tol step s difyr w =
     (if difyr > tol then
        (case TyR L (yr0 s) (th0 s) (heap w a) of
           Inl e \<Rightarrow> Some (Inl e, w)
         | Inr y \<Rightarrow>
             inner_loop_w L a tol step
               (s\<lparr>yr1 := Some y, yr0 := step * y + (1 - step) * yr0 s\<rparr>)
               \<bar>y - yr0 s\<bar>
               (w\<lparr>console := console w @ [Conv_yr \<bar>y - yr0 s\<bar>]\<rparr>))
      else Some (Inr s, w))"



subsection \<open>Concrete collaborators and parameter sets\<close>

text \<open>
  The uniform distribution on \<open>[0, h]\<close>; the trapezoid rule on \<open>[a, h]\<close>, which is the
  integral over \<open>[a, \<infinity>)\<close> of an integrand that is linear on \<open>[a, h]\<close> and vanishes beyond
  \<open>h\<close>, as \<open>(y - yr) * pdf y\<close> is for this distribution when \<open>0 \<le> yr = a\<close>; and a root
  finder that returns its guess when the guess is a root or the function is flat there,
  and takes one secant step otherwise (exact on linear functions).
\<close>

definition uniform :: "real \<Rightarrow> dist" where
  "uniform h =
     \<lparr>pdf = (\<lambda>y. if 0 \<le> y \<and> y \<le> h then 1 / h else 0),
      cdf = (\<lambda>y. if y < 0 then 0 else if y \<le> h then y / h else 1)\<rparr>"

definition trapezoid :: "real \<Rightarrow> (real \<Rightarrow> real) \<Rightarrow> real \<Rightarrow> real" where
  "trapezoid h f a = (if a < h then (h - a) * (f a + f h) / 2 else 0)"

definition secant :: "(real \<Rightarrow> error + real) \<Rightarrow> real \<Rightarrow> error + real" where
  "secant f x0 =
     (case f x0 of Inl e \<Rightarrow> Inl e | Inr v0 \<Rightarrow>
        if v0 = 0 then Inr x0
        else (case f (x0 + 1) of Inl e \<Rightarrow> Inl e | Inr v1 \<Rightarrow>
                if v1 = v0 then Inr x0 else Inr (x0 - v0 / (v1 - v0))))"

definition lib :: "real \<Rightarrow> scipy" where
  "lib h = \<lparr>quad = trapezoid h, root = secant\<rparr>"

text \<open>
  \<open>prms_eq\<close>: productivity uniform on \<open>[0, 3]\<close>; the equilibrium is \<open>yR = 1\<close>, \<open>\<theta> = 1\<close>,
  \<open>u = v = 1/5\<close>, and the solver's first guesses are already there.
  \<open>prms_idle\<close>: productivity uniform on \<open>[0, 1]\<close> and \<open>b = 1\<close>: no match is worth accepting.
  \<open>prms_osc\<close>: productivity uniform on \<open>[0, 1]\<close>; the reservation map sends \<open>1\<close> to \<open>0\<close>,
  \<open>0\<close> to \<open>2\<close> and \<open>2\<close> to \<open>0\<close>.
  \<open>prms_neg\<close>: \<open>\<alpha> = 2\<close>, \<open>\<beta> = 0\<close> and a negative vacancy cost: the job-creation residual
  is \<open>- 1/2 - 2 * \<theta>\<close>, with its root at \<open>\<theta> = - 1/4\<close>.
\<close>

definition prms_eq :: prms where
  "prms_eq = \<lparr>prm_b = 0, prm_lam = 1/6, prm_A = 1, prm_alpha = 1/2, prm_beta = 1/2,
               prm_r = 1/6, prm_c = 1, prm_F = uniform 3\<rparr>"

definition prms_idle :: prms where
  "prms_idle = \<lparr>prm_b = 1, prm_lam = 1/20, prm_A = 1, prm_alpha = 1/2, prm_beta = 1/2,
                 prm_r = 1/10, prm_c = 1, prm_F = uniform 1\<rparr>"

definition prms_osc :: prms where
  "prms_osc = \<lparr>prm_b = 0, prm_lam = 1/4, prm_A = 4, prm_alpha = 1/2, prm_beta = 1/2,
                prm_r = 1/4, prm_c = 1, prm_F = uniform 1\<rparr>"

definition prms_neg :: prms where
  "prms_neg = \<lparr>prm_b = 1, prm_lam = 1/6, prm_A = 1, prm_alpha = 2, prm_beta = 0,
                prm_r = 1/6, prm_c = - (1/2), prm_F = uniform 3\<rparr>"

text \<open>
  \<open>prms_damp\<close>: \<open>\<alpha> = 2\<close> and \<open>\<beta> = 0\<close> on productivity uniform on \<open>[0, 3]\<close>: the reservation
  update is \<open>2\<close> whatever the guess, and the job-creation residual at \<open>yR = 2\<close> is
  \<open>5/4 - \<theta>\<close>. From the guesses \<open>1, 1\<close> both loops need several damped steps.
  \<open>prms_drain\<close>: as \<open>prms_idle\<close> in that both loops stop at once, but on \<open>[0, 3]\<close> and with
  a negative matching scale \<open>A = - 1\<close>.
  \<open>world0\<close>: a world whose every list is \<open>prms_damp\<close>, with no module variable and an empty
  console.
\<close>

definition prms_damp :: prms where
  "prms_damp = \<lparr>prm_b = 2, prm_lam = 1/12, prm_A = 1, prm_alpha = 2, prm_beta = 0,
                 prm_r = 1/12, prm_c = 5/4, prm_F = uniform 3\<rparr>"

definition prms_drain :: prms where
  "prms_drain = \<lparr>prm_b = 1, prm_lam = 1, prm_A = - 1, prm_alpha = 1, prm_beta = 0,
                  prm_r = 1, prm_c = 1, prm_F = uniform 3\<rparr>"


section \<open>Unfolding the loops\<close>

lemma inner_exit:
  "\<not> tol < d \<Longrightarrow> inner_loop L P tol step s d out = Some (Inr s, out)"
  by (subst inner_loop.simps) simp

lemma inner_raise:
  "tol < d \<Longrightarrow> TyR L (yr0 s) (th0 s) P = Inl e \<Longrightarrow>
   inner_loop L P tol step s d out = Some (Inl e, out)"
  by (subst inner_loop.simps) simp

lemma inner_step:
  "tol < d \<Longrightarrow> TyR L (yr0 s) (th0 s) P = Inr y \<Longrightarrow>
   inner_loop L P tol step s d out =
   inner_loop L P tol step (s\<lparr>yr1 := Some y, yr0 := step * y + (1 - step) * yr0 s\<rparr>)
     \<bar>y - yr0 s\<bar> (out @ [Conv_yr \<bar>y - yr0 s\<bar>])"
  by (subst inner_loop.simps) simp

lemma outer_exit:
  "\<not> tol < diftheta s \<Longrightarrow> outer_loop L P tol step s out = Some (Inr s, out)"
  by (subst outer_loop.simps) simp

lemma outer_inner_raise:
  "tol < diftheta s \<Longrightarrow>
   inner_loop L P tol step s 1 (out @ [Solving_yr]) = Some (Inl e, out1) \<Longrightarrow>
   outer_loop L P tol step s out = Some (Inl e, out1)"
  by (subst outer_loop.simps) simp



lemma outer_step:
  "tol < diftheta s \<Longrightarrow>
   inner_loop L P tol step s 1 (out @ [Solving_yr]) = Some (Inr s1, out1) \<Longrightarrow>
   yr1 s1 = Some y \<Longrightarrow> root L (\<lambda>x. JCC L x y P) (th0 s1) = Inr t \<Longrightarrow>
   outer_loop L P tol step s out =
   outer_loop L P tol step
     (s1\<lparr>yrout := Some y, th1 := Some t, diftheta := \<bar>t - th0 s1\<bar>,
         th0 := step * t + (1 - step) * th0 s1\<rparr>)
     (out1 @ [Solving_theta, Conv_theta \<bar>t - th0 s1\<bar>])"
  by (subst outer_loop.simps) simp

text \<open>
  Induction over a run of a loop that returns: one case for each way an iteration ends.
\<close>

lemma inner_loop_induct [consumes 1, case_names exit raise step]:
  assumes run: "inner_loop L P tol step s d out = Some res"
    and exit: "\<And>s d out. \<not> tol < d \<Longrightarrow> Q s d out (Inr s, out)"
    and raise: "\<And>s d out e. tol < d \<Longrightarrow> TyR L (yr0 s) (th0 s) P = Inl e \<Longrightarrow>
                  Q s d out (Inl e, out)"
    and step: "\<And>s d out y res. tol < d \<Longrightarrow> TyR L (yr0 s) (th0 s) P = Inr y \<Longrightarrow>
                  Q (s\<lparr>yr1 := Some y, yr0 := step * y + (1 - step) * yr0 s\<rparr>)
                    \<bar>y - yr0 s\<bar> (out @ [Conv_yr \<bar>y - yr0 s\<bar>]) res \<Longrightarrow>
                  Q s d out res"
  shows "Q s d out res"
proof -
  let ?R = "\<lambda>x res. case x of ((((((L', P'), tol'), step'), s), d), out) \<Rightarrow>
              L' = L \<and> P' = P \<and> tol' = tol \<and> step' = step \<longrightarrow> Q s d out res"
  have "?R ((((((L, P), tol), step), s), d), out) res"
    by (rule inner_loop.raw_induct [where Pa = ?R, OF _ run])
       (auto split: if_splits sum.splits intro: exit raise step)
  then show ?thesis by simp
qed

lemma outer_loop_induct [consumes 1, case_names exit inner_raise unbound root_raise step]:
  assumes run: "outer_loop L P tol step s out = Some res"
    and exit: "\<And>s out. \<not> tol < diftheta s \<Longrightarrow> Q s out (Inr s, out)"
    and inner_raise: "\<And>s out e out1. tol < diftheta s \<Longrightarrow>
          inner_loop L P tol step s 1 (out @ [Solving_yr]) = Some (Inl e, out1) \<Longrightarrow>
          Q s out (Inl e, out1)"
    and unbound: "\<And>s out s1 out1. tol < diftheta s \<Longrightarrow>
          inner_loop L P tol step s 1 (out @ [Solving_yr]) = Some (Inr s1, out1) \<Longrightarrow>
          yr1 s1 = None \<Longrightarrow> Q s out (Inl UnboundLocalError, out1)"
    and root_raise: "\<And>s out s1 out1 y e. tol < diftheta s \<Longrightarrow>
          inner_loop L P tol step s 1 (out @ [Solving_yr]) = Some (Inr s1, out1) \<Longrightarrow>
          yr1 s1 = Some y \<Longrightarrow> root L (\<lambda>x. JCC L x y P) (th0 s1) = Inl e \<Longrightarrow>
          Q s out (Inl e, out1 @ [Solving_theta])"
    and step: "\<And>s out s1 out1 y t res. tol < diftheta s \<Longrightarrow>
          inner_loop L P tol step s 1 (out @ [Solving_yr]) = Some (Inr s1, out1) \<Longrightarrow>
          yr1 s1 = Some y \<Longrightarrow> root L (\<lambda>x. JCC L x y P) (th0 s1) = Inr t \<Longrightarrow>
          Q (s1\<lparr>yrout := Some y, th1 := Some t, diftheta := \<bar>t - th0 s1\<bar>,
                th0 := step * t + (1 - step) * th0 s1\<rparr>)
            (out1 @ [Solving_theta, Conv_theta \<bar>t - th0 s1\<bar>]) res \<Longrightarrow>
          Q s out res"
  shows "Q s out res"
proof -
  let ?R = "\<lambda>x res. case x of (((((L', P'), tol'), step'), s), out) \<Rightarrow>
              L' = L \<and> P' = P \<and> tol' = tol \<and> step' = step \<longrightarrow> Q s out res"
  have "?R (((((L, P), tol), step), s), out) res"
    by (rule outer_loop.raw_induct [where Pa = ?R, OF _ run])
       (auto split: if_splits sum.splits option.splits prod.splits Option.bind_splits
             intro: exit inner_raise unbound root_raise step)
  then show ?thesis by simp
qed

lemma inner_loop_w_induct [consumes 1, case_names exit raise step]:
  assumes run: "inner_loop_w L a tol step s d w = Some res"
    and exit: "\<And>s d w. \<not> tol < d \<Longrightarrow> Q s d w (Inr s, w)"
    and raise: "\<And>s d w e. tol < d \<Longrightarrow> TyR L (yr0 s) (th0 s) (heap w a) = Inl e \<Longrightarrow>
                  Q s d w (Inl e, w)"
    and step: "\<And>s d w y res. tol < d \<Longrightarrow> TyR L (yr0 s) (th0 s) (heap w a) = Inr y \<Longrightarrow>
                  Q (s\<lparr>yr1 := Some y, yr0 := step * y + (1 - step) * yr0 s\<rparr>)
                    \<bar>y - yr0 s\<bar> (w\<lparr>console := console w @ [Conv_yr \<bar>y - yr0 s\<bar>]\<rparr>) res \<Longrightarrow>
                  Q s d w res"
  shows "Q s d w res"
proof -
  let ?R = "\<lambda>L' a' tol' step' s d w res.
              L' = L \<and> a' = a \<and> tol' = tol \<and> step' = step \<longrightarrow> Q s d w res"
  have "?R L a tol step s d w res"
    by (rule inner_loop_w.raw_induct [where P = ?R, OF _ run])
       (auto split: if_splits sum.splits intro: exit raise step)
  then show ?thesis by simp
qed


section \<open>Facts about runs that return\<close>






text \<open>
  Once the outer loop has run its body, \<^verbatim>\<open>yr1\<close>, \<^verbatim>\<open>yrout\<close> and \<^verbatim>\<open>\<theta>1\<close> are bound.
\<close>

lemma outer_binds:
  assumes run: "outer_loop L P tol step s out = Some (Inr s', out')"
    and pre: "tol < diftheta s \<or> (\<exists>y t. yr1 s = Some y \<and> yrout s = Some y \<and> th1 s = Some t)"
  shows "\<exists>y t. yr1 s' = Some y \<and> yrout s' = Some y \<and> th1 s' = Some t"
proof -
  have "\<forall>z. fst res = Inr z \<longrightarrow>
          tol < diftheta s \<or> (\<exists>y t. yr1 s = Some y \<and> yrout s = Some y \<and> th1 s = Some t) \<longrightarrow>
          (\<exists>y t. yr1 z = Some y \<and> yrout z = Some y \<and> th1 z = Some t)"
    if "outer_loop L P tol step s out = Some res" for res
    using that
  proof (induction rule: outer_loop_induct)
    case (exit s out)
    then show ?case by auto
  next
    case (step s out s1 out1 y t res)
    then show ?case by simp
  qed simp_all
  from this [OF run] pre show ?thesis by fastforce
qed

text \<open>
  What a loop leaves behind: the last undamped update, within \<open>tol\<close> of the iterate it
  was computed from, and the damped combination of the two as the next guess.
\<close>

lemma inner_result:
  assumes "inner_loop L P tol step s d out = Some (Inr s', out')"
  shows "th0 s' = th0 s \<and>
         (tol < d \<longrightarrow> (\<exists>y y0. TyR L y0 (th0 s) P = Inr y \<and> yr1 s' = Some y \<and> \<bar>y - y0\<bar> \<le> tol \<and>
                               yr0 s' = step * y + (1 - step) * y0)) \<and>
         (\<not> tol < d \<longrightarrow> s' = s)"
proof -
  have "\<forall>z. fst res = Inr z \<longrightarrow>
          th0 z = th0 s \<and>
          (tol < d \<longrightarrow> (\<exists>y y0. TyR L y0 (th0 s) P = Inr y \<and> yr1 z = Some y \<and> \<bar>y - y0\<bar> \<le> tol \<and>
                                yr0 z = step * y + (1 - step) * y0)) \<and>
          (\<not> tol < d \<longrightarrow> z = s)"
    if "inner_loop L P tol step s d out = Some res" for res
    using that
  proof (induction rule: inner_loop_induct)
    case (exit s d out)
    then show ?case by simp
  next
    case (raise s d out e)
    then show ?case by simp
  next
    case (step s d out y res)
    show ?case
    proof (intro allI impI)
      fix z assume z: "fst res = Inr z"
      let ?s2 = "s\<lparr>yr1 := Some y, yr0 := step * y + (1 - step) * yr0 s\<rparr>"
      from step(3) z have ih: "th0 z = th0 ?s2"
        "tol < \<bar>y - yr0 s\<bar> \<Longrightarrow> \<exists>y' y0. TyR L y0 (th0 ?s2) P = Inr y' \<and> yr1 z = Some y' \<and>
            \<bar>y' - y0\<bar> \<le> tol \<and> yr0 z = step * y' + (1 - step) * y0"
        "\<not> tol < \<bar>y - yr0 s\<bar> \<Longrightarrow> z = ?s2"
        by blast+
      have "\<exists>y' y0. TyR L y0 (th0 s) P = Inr y' \<and> yr1 z = Some y' \<and> \<bar>y' - y0\<bar> \<le> tol \<and>
              yr0 z = step * y' + (1 - step) * y0"
      proof (cases "tol < \<bar>y - yr0 s\<bar>")
        case True
        from ih(2) [OF True] show ?thesis by simp
      next
        case False
        with ih(3) have "z = ?s2" by simp
        with step(2) False show ?thesis
          by (intro exI [of _ y] exI [of _ "yr0 s"]) simp
      qed
      with ih(1) step(1) show "th0 z = th0 s \<and>
          (tol < d \<longrightarrow> (\<exists>y y0. TyR L y0 (th0 s) P = Inr y \<and> yr1 z = Some y \<and> \<bar>y - y0\<bar> \<le> tol \<and>
                                yr0 z = step * y + (1 - step) * y0)) \<and>
          (\<not> tol < d \<longrightarrow> z = s)" by simp
    qed
  qed
  from this [OF assms] show ?thesis by simp
qed

lemma outer_result:
  assumes "outer_loop L P tol step s out = Some (Inr s', out')" and tol: "tol < 1"
  shows "(tol < diftheta s \<longrightarrow>
           (\<exists>y y0 t t0. TyR L y0 t0 P = Inr y \<and> \<bar>y - y0\<bar> \<le> tol \<and> yrout s' = Some y \<and>
                        yr0 s' = step * y + (1 - step) * y0 \<and>
                        root L (\<lambda>x. JCC L x y P) t0 = Inr t \<and> th1 s' = Some t \<and>
                        \<bar>t - t0\<bar> \<le> tol \<and> th0 s' = step * t + (1 - step) * t0)) \<and>
         (\<not> tol < diftheta s \<longrightarrow> s' = s)"
proof -
  let ?G = "\<lambda>s z. (\<exists>y y0 t t0. TyR L y0 t0 P = Inr y \<and> \<bar>y - y0\<bar> \<le> tol \<and> yrout z = Some y \<and>
                        yr0 z = step * y + (1 - step) * y0 \<and>
                        root L (\<lambda>x. JCC L x y P) t0 = Inr t \<and> th1 z = Some t \<and>
                        \<bar>t - t0\<bar> \<le> tol \<and> th0 z = step * t + (1 - step) * t0)"
  have "\<forall>z. fst res = Inr z \<longrightarrow>
          (tol < diftheta s \<longrightarrow> ?G s z) \<and> (\<not> tol < diftheta s \<longrightarrow> z = s)"
    if "outer_loop L P tol step s out = Some res" for res
    using that
  proof (induction rule: outer_loop_induct)
    case (exit s out)
    then show ?case by simp
  next
    case (step s out s1 out1 y t res)
    let ?s2 = "s1\<lparr>yrout := Some y, th1 := Some t, diftheta := \<bar>t - th0 s1\<bar>,
                  th0 := step * t + (1 - step) * th0 s1\<rparr>"
    from inner_result [OF step(2)] tol step(3) obtain y0 where
      i: "th0 s1 = th0 s" "TyR L y0 (th0 s) P = Inr y" "\<bar>y - y0\<bar> \<le> tol"
         "yr0 s1 = step * y + (1 - step) * y0"
      by auto
    show ?case
    proof (intro allI impI)
      fix z assume z: "fst res = Inr z"
      from step(5) z have ih: "tol < diftheta ?s2 \<Longrightarrow> ?G ?s2 z"
        "\<not> tol < diftheta ?s2 \<Longrightarrow> z = ?s2" by blast+
      have "?G s z"
      proof (cases "tol < diftheta ?s2")
        case True
        from ih(1) [OF True] show ?thesis .
      next
        case False
        with ih(2) have zz: "z = ?s2" by simp
        from False have "\<bar>t - th0 s1\<bar> \<le> tol" by simp
        with i step(4) show ?thesis unfolding zz
          by (intro exI [of _ y] exI [of _ y0] exI [of _ t] exI [of _ "th0 s1"]) simp
      qed
      with step(1) show "(tol < diftheta s \<longrightarrow> ?G s z) \<and> (\<not> tol < diftheta s \<longrightarrow> z = s)"
        by simp
    qed
  qed simp_all
  from this [OF assms(1)] show ?thesis by simp
qed

lemma solve_result:
  assumes "SolveModel L P tol step out = Some (Inr (yr, th, u, v), out')"
  shows "tol < 1 \<and> (\<exists>y0 t0. TyR L y0 t0 P = Inr yr \<and> \<bar>yr - y0\<bar> \<le> tol \<and>
                      root L (\<lambda>x. JCC L x yr P) t0 = Inr th \<and> \<bar>th - t0\<bar> \<le> tol)"
proof -
  from assms obtain s where o: "outer_loop L P tol step start out = Some (Inr s, out')"
    and a: "after_loops P s = Inr (yr, th, u, v)"
    by (auto simp: SolveModel_def split: Option.bind_splits sum.splits)
  from a have b: "th1 s = Some th" "yrout s = Some yr"
    by (auto simp: after_loops_def Let_def split: option.splits sum.splits if_splits)
  have tol: "tol < 1"
  proof (rule ccontr)
    assume "\<not> tol < 1"
    then have "outer_loop L P tol step start out = Some (Inr start, out)"
      by (simp add: outer_exit start_def)
    with o have "s = start" by simp
    with b show False by (simp add: start_def)
  qed
  then have "tol < diftheta start" by (simp add: start_def)
  with outer_result [OF o tol] b tol show ?thesis by auto
qed

text \<open>
  A set of iterates that the inner-loop body maps into itself, always with a diagnostic
  above the tolerance, is never left: the loop does not return.
\<close>

lemma inner_never:
  assumes inv: "\<And>y. y \<in> I \<Longrightarrow>
      \<exists>y'. TyR L y th P = Inr y' \<and> tol < \<bar>y' - y\<bar> \<and> step * y' + (1 - step) * y \<in> I"
    and "yr0 s \<in> I" "th0 s = th" "tol < d"
  shows "inner_loop L P tol step s d out = None"
proof (rule ccontr)
  assume "inner_loop L P tol step s d out \<noteq> None"
  then obtain res where "inner_loop L P tol step s d out = Some res" by blast
  then have "yr0 s \<in> I \<longrightarrow> th0 s = th \<longrightarrow> tol < d \<longrightarrow> False"
  proof (induction rule: inner_loop_induct)
    case (exit s d out)
    then show ?case by simp
  next
    case (raise s d out e)
    then show ?case using inv by fastforce
  next
    case (step s d out y res)
    then show ?case using inv by fastforce
  qed
  with assms(2-4) show False by blast
qed

lemma inner_never_solve:
  assumes "tol < 1" and "1 \<in> I"
    and "\<And>y. y \<in> I \<Longrightarrow>
          \<exists>y'. TyR L y 1 P = Inr y' \<and> tol < \<bar>y' - y\<bar> \<and> step * y' + (1 - step) * y \<in> I"
  shows "SolveModel L P tol step out = None"
proof -
  have "inner_loop L P tol step start 1 (out @ [Solving_yr]) = None"
    by (rule inner_never [where I = I and th = 1, OF assms(3)])
       (simp_all add: start_def assms(1,2))
  then have "outer_loop L P tol step start out = None"
    by (subst outer_loop.simps) (simp add: start_def assms(1))
  then show ?thesis by (simp add: SolveModel_def)
qed

lemma link_algebra:
  fixes a p be th D I :: real
  assumes "be \<noteq> 0" "th \<noteq> 0" "D \<noteq> 0"
  shows "(a * p * (1 - be) / (th * D)) * I = ((1 - be) / (be * th)) * ((a * p * be / D) * I)"
  using assms by (simp add: field_simps)

section \<open>The store is only read\<close>

text \<open>
  On the store, each loop returns what it returns on the parameter values found at the
  address, and leaves the world as it was but for the console.
\<close>

lemma inner_w_sound:
  assumes "inner_loop_w L a tol step s d w = Some res"
  shows "\<exists>out'. snd res = w\<lparr>console := out'\<rparr> \<and>
           inner_loop L (heap w a) tol step s d (console w) = Some (fst res, out')"
  using assms
proof (induction rule: inner_loop_w_induct)
  case (exit s d w)
  then show ?case by (auto simp: inner_exit intro: exI [of _ "console w"])
next
  case (raise s d w e)
  then show ?case by (auto simp: inner_raise intro: exI [of _ "console w"])
next
  case (step s d w y res)
  then show ?case by (auto simp: inner_step)
qed

lemma inner_w_complete:
  assumes "inner_loop L P tol step s d out = Some res"
  shows "\<forall>w. heap w a = P \<and> console w = out \<longrightarrow>
           inner_loop_w L a tol step s d w = Some (fst res, w\<lparr>console := snd res\<rparr>)"
  using assms
proof (induction rule: inner_loop_induct)
  case (exit s d out)
  then show ?case by (auto simp: inner_loop_w.simps)
next
  case (raise s d out e)
  then show ?case by (auto simp: inner_loop_w.simps)
next
  case (step s d out y res)
  show ?case
  proof (intro allI impI)
    fix w :: world assume w: "heap w a = P \<and> console w = out"
    let ?w2 = "w\<lparr>console := console w @ [Conv_yr \<bar>y - yr0 s\<bar>]\<rparr>"
    from w have "heap ?w2 a = P \<and> console ?w2 = out @ [Conv_yr \<bar>y - yr0 s\<bar>]" by simp
    with step(3) have "inner_loop_w L a tol step
        (s\<lparr>yr1 := Some y, yr0 := step * y + (1 - step) * yr0 s\<rparr>) \<bar>y - yr0 s\<bar> ?w2 =
        Some (fst res, ?w2\<lparr>console := snd res\<rparr>)" by blast
    with step(1,2) w show "inner_loop_w L a tol step s d w = Some (fst res, w\<lparr>console := snd res\<rparr>)"
      by (subst inner_loop_w.simps) simp
  qed
qed

lemma inner_w_refines:
  "inner_loop_w L a tol step s d w =
   map_option (\<lambda>(r, out'). (r, w\<lparr>console := out'\<rparr>))
     (inner_loop L (heap w a) tol step s d (console w))"
proof (cases "inner_loop_w L a tol step s d w")
  case None
  have "inner_loop L (heap w a) tol step s d (console w) = None"
  proof (rule ccontr)
    assume "inner_loop L (heap w a) tol step s d (console w) \<noteq> None"
    then obtain res where "inner_loop L (heap w a) tol step s d (console w) = Some res" by blast
    from inner_w_complete [OF this, of a] None show False by simp
  qed
  with None show ?thesis by simp
next
  case (Some res)
  from inner_w_sound [OF Some] Some show ?thesis by (cases res) auto
qed







section \<open>Runs on the concrete parameter sets\<close>

lemma TyR_eq: "TyR (lib 3) 1 1 prms_eq = Inr 1"
  by (simp add: TyR_def lib_def prms_eq_def uniform_def trapezoid_def py_pow_def py_div_def)

lemma JCC_eq: "JCC (lib 3) 1 1 prms_eq = Inr 0"
  by (simp add: JCC_def lib_def prms_eq_def uniform_def trapezoid_def py_pow_def py_div_def)

lemma root_eq: "root (lib 3) (\<lambda>x. JCC (lib 3) x 1 prms_eq) 1 = Inr 1"
  by (simp add: lib_def secant_def JCC_eq [unfolded lib_def])

lemma inner_eq:
  "inner_loop (lib 3) prms_eq (1/1000000) (1/2) start 1 [Solving_yr] =
   Some (Inr (start\<lparr>yr1 := Some 1\<rparr>), [Solving_yr, Conv_yr 0])"
  by (simp add: inner_step [where y = 1] inner_exit TyR_eq start_def)

lemma outer_eq:
  "outer_loop (lib 3) prms_eq (1/1000000) (1/2) start [] =
   Some (Inr (start\<lparr>yr1 := Some 1, yrout := Some 1, th1 := Some 1, diftheta := 0\<rparr>),
         [Solving_yr, Conv_yr 0, Solving_theta, Conv_theta 0])"
  apply (subst outer_step [where y = 1 and t = 1])
      apply (simp add: start_def)
     apply (simp add: inner_eq)
    apply simp
   apply (simp add: start_def root_eq)
  apply (simp add: outer_exit start_def)
  done

lemma run_eq:
  "SolveModel (lib 3) prms_eq (1/1000000) (1/2) [] =
   Some (Inr (1, 1, 1/5, 1/5), [Solving_yr, Conv_yr 0, Solving_theta, Conv_theta 0])"
  unfolding SolveModel_def outer_eq
  by (simp add: after_loops_def np_pow_def py_pow_def prms_eq_def uniform_def Let_def)

lemma TyR_idle: "TyR (lib 1) 1 1 prms_idle = Inr 1"
  by (simp add: TyR_def lib_def prms_idle_def uniform_def trapezoid_def py_pow_def py_div_def)

lemma JCC_idle: "0 < x \<Longrightarrow> JCC (lib 1) x 1 prms_idle = Inr 1"
  by (simp add: JCC_def lib_def prms_idle_def uniform_def trapezoid_def py_pow_def py_div_def)

lemma root_idle: "root (lib 1) (\<lambda>x. JCC (lib 1) x 1 prms_idle) 1 = Inr 1"
  by (simp add: lib_def secant_def JCC_idle [unfolded lib_def])

lemma outer_idle:
  "outer_loop (lib 1) prms_idle (1/1000000) (1/2) start [] =
   Some (Inr (start\<lparr>yr1 := Some 1, yrout := Some 1, th1 := Some 1, diftheta := 0\<rparr>),
         [Solving_yr, Conv_yr 0, Solving_theta, Conv_theta 0])"
  apply (subst outer_step [where y = 1 and t = 1 and ?s1.0 = "start\<lparr>yr1 := Some 1\<rparr>"
         and ?out1.0 = "[Solving_yr, Conv_yr 0]"])
      apply (simp add: start_def)
     apply (simp add: inner_step [where y = 1] inner_exit TyR_idle start_def)
    apply simp
   apply (simp add: start_def root_idle)
  apply (simp add: outer_exit start_def)
  done

lemma run_idle:
  "SolveModel (lib 1) prms_idle (1/1000000) (1/2) [] =
     Some (Inr (1, 1, 1, 1), [Solving_yr, Conv_yr 0, Solving_theta, Conv_theta 0])"
  unfolding SolveModel_def outer_idle
  by (simp add: after_loops_def np_pow_def py_pow_def prms_idle_def uniform_def Let_def)

lemma TyR_neg: "x = 1 \<or> x = - (1/4) \<Longrightarrow> TyR (lib 3) 1 x prms_neg = Inr 1"
  by (auto simp add: TyR_def lib_def prms_neg_def uniform_def trapezoid_def py_pow_def py_div_def)

lemma JCC_neg1: "JCC (lib 3) 1 1 prms_neg = Inr (- (5/2))"
  by (simp add: JCC_def lib_def prms_neg_def uniform_def trapezoid_def py_pow_def py_div_def)

lemma JCC_neg2: "JCC (lib 3) 2 1 prms_neg = Inr (- (9/2))"
  by (simp add: JCC_def lib_def prms_neg_def uniform_def trapezoid_def py_pow_def py_div_def)

lemma JCC_neg3: "JCC (lib 3) (- (1/4)) 1 prms_neg = Inr 0"
  by (simp add: JCC_def lib_def prms_neg_def uniform_def trapezoid_def py_pow_def py_div_def
        power2_eq_square)

lemma root_neg1: "root (lib 3) (\<lambda>x. JCC (lib 3) x 1 prms_neg) 1 = Inr (- (1/4))"
  by (simp add: lib_def secant_def JCC_neg1 [unfolded lib_def] JCC_neg2 [unfolded lib_def])

lemma root_neg2: "root (lib 3) (\<lambda>x. JCC (lib 3) x 1 prms_neg) (- (1/4)) = Inr (- (1/4))"
  by (simp add: lib_def secant_def JCC_neg3 [unfolded lib_def])

lemma outer_neg:
  "outer_loop (lib 3) prms_neg (1/1000000) 1 start [] =
   Some (Inr (start\<lparr>yr1 := Some 1, yrout := Some 1, th1 := Some (- (1/4)), diftheta := 0,
                     th0 := - (1/4)\<rparr>),
         [Solving_yr, Conv_yr 0, Solving_theta, Conv_theta (5/4),
          Solving_yr, Conv_yr 0, Solving_theta, Conv_theta 0])"
  apply (subst outer_step [where y = 1 and t = "- (1/4)" and ?s1.0 = "start\<lparr>yr1 := Some 1\<rparr>"
         and ?out1.0 = "[Solving_yr, Conv_yr 0]"])
      apply (simp add: start_def)
     apply (simp add: inner_step [where y = 1] inner_exit TyR_neg start_def)
    apply simp
   apply (simp add: start_def root_neg1)
  apply (subst outer_step [where y = 1 and t = "- (1/4)"
         and ?s1.0 = "start\<lparr>yr1 := Some 1, yrout := Some 1, th1 := Some (- (1/4)),
                             diftheta := 5/4, th0 := - (1/4)\<rparr>"
         and ?out1.0 = "[Solving_yr, Conv_yr 0, Solving_theta, Conv_theta (5/4),
                         Solving_yr, Conv_yr 0]"])
      apply (simp add: start_def)
     apply (simp add: inner_step [where y = 1] inner_exit TyR_neg start_def)
    apply simp
   apply (simp add: start_def root_neg2)
  apply (simp add: outer_exit start_def)
  done

lemma TyR_osc:
  "TyR (lib 1) 1 1 prms_osc = Inr 0" "TyR (lib 1) 0 1 prms_osc = Inr 2"
  "TyR (lib 1) 2 1 prms_osc = Inr 0"
  by (simp_all add: TyR_def lib_def prms_osc_def uniform_def trapezoid_def py_pow_def py_div_def)

lemma osc_cycle:
  "y \<in> {0, 1, 2} \<Longrightarrow>
   \<exists>y'. TyR (lib 1) y 1 prms_osc = Inr y' \<and> 1/1000000 < \<bar>y' - y\<bar> \<and>
        1 * y' + (1 - 1) * y \<in> {0, 1, 2 :: real}"
  by (auto simp: TyR_osc)

lemma TyR_damp: "0 < x \<Longrightarrow> TyR (lib 3) y x prms_damp = Inr 2"
  by (simp add: TyR_def lib_def prms_damp_def py_pow_def py_div_def)

lemma JCC_damp: "0 < x \<Longrightarrow> JCC (lib 3) x 2 prms_damp = Inr (5/4 - x)"
  by (simp add: JCC_def lib_def prms_damp_def uniform_def trapezoid_def py_pow_def py_div_def
        power2_eq_square)

lemma root_damp1: "root (lib 3) (\<lambda>x. JCC (lib 3) x 2 prms_damp) 1 = Inr (5/4)"
  by (simp add: lib_def secant_def JCC_damp [unfolded lib_def])

lemma root_damp2: "root (lib 3) (\<lambda>x. JCC (lib 3) x 2 prms_damp) (9/8) = Inr (5/4)"
  by (simp add: lib_def secant_def JCC_damp [unfolded lib_def])

lemma inner_damp1:
  "inner_loop (lib 3) prms_damp (1/5) (1/2) start 1 [Solving_yr] =
   Some (Inr (start\<lparr>yr1 := Some 2, yr0 := 31/16\<rparr>),
         [Solving_yr, Conv_yr 1, Conv_yr (1/2), Conv_yr (1/4), Conv_yr (1/8)])"
  by (simp add: inner_step [where y = 2] inner_exit TyR_damp start_def)

lemma outer_damp:
  "outer_loop (lib 3) prms_damp (1/5) (1/2) start [] =
   Some (Inr (start\<lparr>yr1 := Some 2, yr0 := 63/32, yrout := Some 2, th1 := Some (5/4),
                     diftheta := 1/8, th0 := 19/16\<rparr>),
         [Solving_yr, Conv_yr 1, Conv_yr (1/2), Conv_yr (1/4), Conv_yr (1/8),
          Solving_theta, Conv_theta (1/4), Solving_yr, Conv_yr (1/16),
          Solving_theta, Conv_theta (1/8)])"
  apply (subst outer_step [where y = 2 and t = "5/4"
         and ?s1.0 = "start\<lparr>yr1 := Some 2, yr0 := 31/16\<rparr>"
         and ?out1.0 = "[Solving_yr, Conv_yr 1, Conv_yr (1/2), Conv_yr (1/4), Conv_yr (1/8)]"])
      apply (simp add: start_def)
     apply (simp add: inner_damp1)
    apply simp
   apply (simp add: start_def root_damp1)
  apply (subst outer_step [where y = 2 and t = "5/4"
         and ?s1.0 = "start\<lparr>yr1 := Some 2, yr0 := 63/32, yrout := Some 2, th1 := Some (5/4),
                             diftheta := 1/4, th0 := 9/8\<rparr>"
         and ?out1.0 = "[Solving_yr, Conv_yr 1, Conv_yr (1/2), Conv_yr (1/4), Conv_yr (1/8),
                         Solving_theta, Conv_theta (1/4), Solving_yr, Conv_yr (1/16)]"])
      apply (simp add: start_def)
     apply (simp add: inner_step [where y = 2] inner_exit TyR_damp start_def)
    apply simp
   apply (simp add: start_def root_damp2)
  apply (simp add: outer_exit start_def)
  done

lemma run_damp:
  "SolveModel (lib 3) prms_damp (1/5) (1/2) [] =
   Some (Inr (2, 5/4, 4/29, 5/29),
         [Solving_yr, Conv_yr 1, Conv_yr (1/2), Conv_yr (1/4), Conv_yr (1/8),
          Solving_theta, Conv_theta (1/4), Solving_yr, Conv_yr (1/16),
          Solving_theta, Conv_theta (1/8)])"
  unfolding SolveModel_def outer_damp
  by (simp add: after_loops_def np_pow_def py_pow_def prms_damp_def uniform_def Let_def
        power2_eq_square)

lemma TyR_drain: "TyR (lib 3) 1 1 prms_drain = Inr 1"
  by (simp add: TyR_def lib_def prms_drain_def py_pow_def py_div_def)

lemma JCC_drain: "0 < x \<Longrightarrow> JCC (lib 3) x 1 prms_drain = Inr (4/3)"
  by (simp add: JCC_def lib_def prms_drain_def uniform_def trapezoid_def py_pow_def py_div_def)

lemma root_drain: "root (lib 3) (\<lambda>x. JCC (lib 3) x 1 prms_drain) 1 = Inr 1"
  by (simp add: lib_def secant_def JCC_drain [unfolded lib_def])

lemma outer_drain:
  "outer_loop (lib 3) prms_drain (1/1000000) (1/2) start [] =
   Some (Inr (start\<lparr>yr1 := Some 1, yrout := Some 1, th1 := Some 1, diftheta := 0\<rparr>),
         [Solving_yr, Conv_yr 0, Solving_theta, Conv_theta 0])"
  apply (subst outer_step [where y = 1 and t = 1 and ?s1.0 = "start\<lparr>yr1 := Some 1\<rparr>"
         and ?out1.0 = "[Solving_yr, Conv_yr 0]"])
      apply (simp add: start_def)
     apply (simp add: inner_step [where y = 1] inner_exit TyR_drain start_def)
    apply simp
   apply (simp add: start_def root_drain)
  apply (simp add: outer_exit start_def)
  done

lemma run_drain:
  "SolveModel (lib 3) prms_drain (1/1000000) (1/2) [] =
     Some (Inr (1, 1, 3, 3), [Solving_yr, Conv_yr 0, Solving_theta, Conv_theta 0])"
  unfolding SolveModel_def outer_drain
  by (simp add: after_loops_def np_pow_def py_pow_def prms_drain_def uniform_def Let_def)


section \<open>The claims\<close>

subsection \<open>C1: the convergence test comes before the damping\<close>

text \<open>
  Claim C1. \<^verbatim>\<open>SolveModel\<close> is the outer loop run from the state with \<open>yr0 = 1\<close>,
  \<open>\<theta>0 = 1\<close>, \<open>diftheta = 1\<close> and nothing else bound, followed by the closed form; for
  \<open>tol < 1\<close> its first action is the call \<open>TyR(1, 1)\<close>, whose exception it passes on.
  One pass through the inner-loop body computes the undamped update \<open>y = TyR(yr0, \<theta>0)\<close>,
  stores it in \<^verbatim>\<open>yr1\<close>, prints the undamped difference \<open>\<bar>y - yr0\<bar>\<close>, sets \<^verbatim>\<open>yr0\<close> to the
  damped value \<open>step * y + (1 - step) * yr0\<close>, and goes round again exactly when the
  undamped difference is above \<open>tol\<close>. The outer loop does the same with the root \<open>t\<close> the
  root finder returns from the guess \<open>\<theta>0\<close>. So a returned \<open>yR\<close> is an undamped update within
  \<open>tol\<close> of the iterate it was computed from, and the returned \<open>\<theta>\<close> is an undamped root
  within \<open>tol\<close> of the guess it was searched from, at the tightness \<open>yR\<close> was computed for.
\<close>

theorem iteration_tests_before_damping:
  "SolveModel L P tol step out =
     Option.bind
       (outer_loop L P tol step
          \<lparr>yr0 = 1, th0 = 1, diftheta = 1, yr1 = None, yrout = None, th1 = None\<rparr> out)
       (\<lambda>(res, out1). Some (case res of Inl e \<Rightarrow> Inl e | Inr s \<Rightarrow> after_loops P s, out1)) \<and>
   (tol < 1 \<longrightarrow> TyR L 1 1 P = Inl e \<longrightarrow>
      SolveModel L P tol step out = Some (Inl e, out @ [Solving_yr])) \<and>
   (tol < d \<longrightarrow> TyR L (yr0 s) (th0 s) P = Inr y \<longrightarrow>
      inner_loop L P tol step s d out =
        (let s' = s\<lparr>yr1 := Some y, yr0 := step * y + (1 - step) * yr0 s\<rparr>;
             out' = out @ [Conv_yr \<bar>y - yr0 s\<bar>]
         in if tol < \<bar>y - yr0 s\<bar> then inner_loop L P tol step s' \<bar>y - yr0 s\<bar> out'
            else Some (Inr s', out'))) \<and>
   (tol < diftheta s \<longrightarrow>
    inner_loop L P tol step s 1 (out @ [Solving_yr]) = Some (Inr s1, out1) \<longrightarrow>
    yr1 s1 = Some y1 \<longrightarrow> root L (\<lambda>x. JCC L x y1 P) (th0 s1) = Inr t \<longrightarrow>
      outer_loop L P tol step s out =
        (let s2 = s1\<lparr>yrout := Some y1, th1 := Some t, diftheta := \<bar>t - th0 s1\<bar>,
                     th0 := step * t + (1 - step) * th0 s1\<rparr>;
             out2 = out1 @ [Solving_theta, Conv_theta \<bar>t - th0 s1\<bar>]
         in if tol < \<bar>t - th0 s1\<bar> then outer_loop L P tol step s2 out2
            else Some (Inr s2, out2))) \<and>
   (SolveModel L P tol step out = Some (Inr (yr, th, u, v), out3) \<longrightarrow>
      tol < 1 \<and>
      (\<exists>y0 t0. TyR L y0 t0 P = Inr yr \<and> \<bar>yr - y0\<bar> \<le> tol \<and>
               root L (\<lambda>x. JCC L x yr P) t0 = Inr th \<and> \<bar>th - t0\<bar> \<le> tol))"
proof (intro conjI impI)
  show "SolveModel L P tol step out =
     Option.bind
       (outer_loop L P tol step
          \<lparr>yr0 = 1, th0 = 1, diftheta = 1, yr1 = None, yrout = None, th1 = None\<rparr> out)
       (\<lambda>(res, out1). Some (case res of Inl e \<Rightarrow> Inl e | Inr s \<Rightarrow> after_loops P s, out1))"
    by (simp add: SolveModel_def start_def)
next
  assume "tol < 1" "TyR L 1 1 P = Inl e"
  then have "inner_loop L P tol step start 1 (out @ [Solving_yr]) = Some (Inl e, out @ [Solving_yr])"
    by (simp add: inner_raise start_def)
  with \<open>tol < 1\<close> have "outer_loop L P tol step start out = Some (Inl e, out @ [Solving_yr])"
    by (simp add: outer_inner_raise start_def)
  then show "SolveModel L P tol step out = Some (Inl e, out @ [Solving_yr])"
    by (simp add: SolveModel_def)
next
  assume "tol < d" "TyR L (yr0 s) (th0 s) P = Inr y"
  then show "inner_loop L P tol step s d out =
        (let s' = s\<lparr>yr1 := Some y, yr0 := step * y + (1 - step) * yr0 s\<rparr>;
             out' = out @ [Conv_yr \<bar>y - yr0 s\<bar>]
         in if tol < \<bar>y - yr0 s\<bar> then inner_loop L P tol step s' \<bar>y - yr0 s\<bar> out'
            else Some (Inr s', out'))"
    by (simp add: inner_step inner_exit Let_def)
next
  assume "tol < diftheta s"
    "inner_loop L P tol step s 1 (out @ [Solving_yr]) = Some (Inr s1, out1)"
    "yr1 s1 = Some y1" "root L (\<lambda>x. JCC L x y1 P) (th0 s1) = Inr t"
  then show "outer_loop L P tol step s out =
        (let s2 = s1\<lparr>yrout := Some y1, th1 := Some t, diftheta := \<bar>t - th0 s1\<bar>,
                     th0 := step * t + (1 - step) * th0 s1\<rparr>;
             out2 = out1 @ [Solving_theta, Conv_theta \<bar>t - th0 s1\<bar>]
         in if tol < \<bar>t - th0 s1\<bar> then outer_loop L P tol step s2 out2
            else Some (Inr s2, out2))"
    by (simp add: outer_step outer_exit Let_def)
next
  assume "SolveModel L P tol step out = Some (Inr (yr, th, u, v), out3)"
  from solve_result [OF this]
  show "tol < 1" and "\<exists>y0 t0. TyR L y0 t0 P = Inr yr \<and> \<bar>yr - y0\<bar> \<le> tol \<and>
               root L (\<lambda>x. JCC L x yr P) t0 = Inr th \<and> \<bar>th - t0\<bar> \<le> tol"
    by blast+
qed

text \<open>
  On \<open>prms_damp\<close> with \<open>tol = 1/5\<close> and \<open>step = 1/2\<close>: the first inner pass computes \<open>2\<close>
  from the guess \<open>1\<close>, and goes on from \<open>3/2\<close>; the inner loop ends at the undamped
  difference \<open>1/8\<close>, where the damped iterates have been \<open>1/8\<close> apart one pass earlier;
  the first outer pass finds the root \<open>5/4\<close> from the guess \<open>1\<close> and goes on from \<open>9/8\<close>,
  since \<open>1/4\<close> is above \<open>tol\<close> although the damped guess moved by \<open>1/8\<close> only. With
  \<open>\<lambda> + r = 0\<close> the first call of \<open>TyR\<close> raises.
\<close>

theorem iteration_tests_before_damping_witness:
  "(1/5 :: real) < 1 \<and>
   TyR (lib 3) 1 1 (prms_eq\<lparr>prm_r := - (1/6)\<rparr>) = Inl ZeroDivisionError \<and>
   SolveModel (lib 3) (prms_eq\<lparr>prm_r := - (1/6)\<rparr>) (1/5) (1/2) [] =
     Some (Inl ZeroDivisionError, [Solving_yr]) \<and>
   TyR (lib 3) (yr0 start) (th0 start) prms_damp = Inr 2 \<and>
   inner_loop (lib 3) prms_damp (1/5) (1/2) start 1 [Solving_yr] =
     inner_loop (lib 3) prms_damp (1/5) (1/2) (start\<lparr>yr1 := Some 2, yr0 := 3/2\<rparr>) 1
       [Solving_yr, Conv_yr 1] \<and>
   (1/5 :: real) < diftheta start \<and>
   inner_loop (lib 3) prms_damp (1/5) (1/2) start 1 ([] @ [Solving_yr]) =
     Some (Inr (start\<lparr>yr1 := Some 2, yr0 := 31/16\<rparr>),
           [Solving_yr, Conv_yr 1, Conv_yr (1/2), Conv_yr (1/4), Conv_yr (1/8)]) \<and>
   yr1 (start\<lparr>yr1 := Some 2, yr0 := 31/16\<rparr>) = Some 2 \<and>
   root (lib 3) (\<lambda>x. JCC (lib 3) x 2 prms_damp) (th0 (start\<lparr>yr1 := Some 2, yr0 := 31/16\<rparr>)) =
     Inr (5/4) \<and>
   outer_loop (lib 3) prms_damp (1/5) (1/2) start [] =
     outer_loop (lib 3) prms_damp (1/5) (1/2)
       (start\<lparr>yr1 := Some 2, yr0 := 31/16, yrout := Some 2, th1 := Some (5/4),
              diftheta := 1/4, th0 := 9/8\<rparr>)
       [Solving_yr, Conv_yr 1, Conv_yr (1/2), Conv_yr (1/4), Conv_yr (1/8),
        Solving_theta, Conv_theta (1/4)] \<and>
   SolveModel (lib 3) prms_damp (1/5) (1/2) [] =
     Some (Inr (2, 5/4, 4/29, 5/29),
           [Solving_yr, Conv_yr 1, Conv_yr (1/2), Conv_yr (1/4), Conv_yr (1/8),
            Solving_theta, Conv_theta (1/4), Solving_yr, Conv_yr (1/16),
            Solving_theta, Conv_theta (1/8)]) \<and>
   (\<exists>y0 t0. TyR (lib 3) y0 t0 prms_damp = Inr 2 \<and> \<bar>2 - y0\<bar> \<le> 1/5 \<and>
            root (lib 3) (\<lambda>x. JCC (lib 3) x 2 prms_damp) t0 = Inr (5/4) \<and> \<bar>5/4 - t0\<bar> \<le> 1/5)"
proof -
  have tol: "(1/5 :: real) < 1" by simp
  have z: "TyR (lib 3) 1 1 (prms_eq\<lparr>prm_r := - (1/6)\<rparr>) = Inl ZeroDivisionError"
    by (simp add: TyR_def prms_eq_def py_pow_def py_div_def)
  have t1: "TyR (lib 3) (yr0 start) (th0 start) prms_damp = Inr 2"
    by (simp add: TyR_damp start_def)
  have i1: "inner_loop (lib 3) prms_damp (1/5) (1/2) start 1 ([] @ [Solving_yr]) =
     Some (Inr (start\<lparr>yr1 := Some 2, yr0 := 31/16\<rparr>),
           [Solving_yr, Conv_yr 1, Conv_yr (1/2), Conv_yr (1/4), Conv_yr (1/8)])"
    by (simp add: inner_damp1)
  have r1: "root (lib 3) (\<lambda>x. JCC (lib 3) x 2 prms_damp)
              (th0 (start\<lparr>yr1 := Some 2, yr0 := 31/16\<rparr>)) = Inr (5/4)"
    by (simp add: root_damp1 start_def)
  have dt: "(1/5 :: real) < diftheta start" by (simp add: start_def)
  have b1: "yr1 (start\<lparr>yr1 := Some 2, yr0 := 31/16\<rparr>) = Some 2" by simp
  note T = iteration_tests_before_damping
  have a: "SolveModel (lib 3) (prms_eq\<lparr>prm_r := - (1/6)\<rparr>) (1/5) (1/2) [] =
     Some (Inl ZeroDivisionError, [Solving_yr])"
    using T [where L = "lib 3" and P = "prms_eq\<lparr>prm_r := - (1/6)\<rparr>" and tol = "1/5"
               and step = "1/2" and out = "[]" and e = ZeroDivisionError,
             THEN conjunct2, THEN conjunct1] tol z
    by simp
  have b: "inner_loop (lib 3) prms_damp (1/5) (1/2) start 1 [Solving_yr] =
     inner_loop (lib 3) prms_damp (1/5) (1/2) (start\<lparr>yr1 := Some 2, yr0 := 3/2\<rparr>) 1
       [Solving_yr, Conv_yr 1]"
    using T [where L = "lib 3" and P = prms_damp and tol = "1/5" and step = "1/2"
               and out = "[Solving_yr]" and d = 1 and s = start and y = 2,
             THEN conjunct2, THEN conjunct2, THEN conjunct1] tol t1
    by (simp add: start_def Let_def)
  have c: "outer_loop (lib 3) prms_damp (1/5) (1/2) start [] =
     outer_loop (lib 3) prms_damp (1/5) (1/2)
       (start\<lparr>yr1 := Some 2, yr0 := 31/16, yrout := Some 2, th1 := Some (5/4),
              diftheta := 1/4, th0 := 9/8\<rparr>)
       [Solving_yr, Conv_yr 1, Conv_yr (1/2), Conv_yr (1/4), Conv_yr (1/8),
        Solving_theta, Conv_theta (1/4)]"
    using T [where L = "lib 3" and P = prms_damp and tol = "1/5" and step = "1/2"
               and out = "[]" and s = start
               and ?s1.0 = "start\<lparr>yr1 := Some 2, yr0 := 31/16\<rparr>"
               and ?out1.0 = "[Solving_yr, Conv_yr 1, Conv_yr (1/2), Conv_yr (1/4), Conv_yr (1/8)]"
               and ?y1.0 = 2 and t = "5/4",
             THEN conjunct2, THEN conjunct2, THEN conjunct2, THEN conjunct1] dt i1 b1 r1
    by (simp add: start_def Let_def)
  have d: "\<exists>y0 t0. TyR (lib 3) y0 t0 prms_damp = Inr 2 \<and> \<bar>2 - y0\<bar> \<le> 1/5 \<and>
            root (lib 3) (\<lambda>x. JCC (lib 3) x 2 prms_damp) t0 = Inr (5/4) \<and> \<bar>5/4 - t0\<bar> \<le> 1/5"
    using T [where L = "lib 3" and P = prms_damp and tol = "1/5" and step = "1/2"
               and out = "[]" and yr = 2 and th = "5/4" and u = "4/29" and v = "5/29"
               and ?out3.0 = "[Solving_yr, Conv_yr 1, Conv_yr (1/2), Conv_yr (1/4), Conv_yr (1/8),
            Solving_theta, Conv_theta (1/4), Solving_yr, Conv_yr (1/16),
            Solving_theta, Conv_theta (1/8)]",
             THEN conjunct2, THEN conjunct2, THEN conjunct2, THEN conjunct2] run_damp
    by blast
  from tol z a t1 b dt i1 b1 r1 c run_damp d show ?thesis by (simp only: simp_thms)
qed

subsection \<open>C2: the value of the reservation update\<close>

text \<open>
  Claim C2. Where \<open>\<theta> ** \<alpha>\<close> is a real number \<open>p\<close> (it is \<open>\<theta> powr \<alpha>\<close> for positive \<open>\<theta>\<close>)
  and \<open>\<lambda> + r\<close> is not zero, \<^verbatim>\<open>TyR(yR, \<theta>, prms)\<close> returns
  \<open>b + (A * p * \<beta> / (\<lambda> + r)) * I\<close>, with \<open>I\<close> the value the integrator gives for the
  integral of \<open>(y - yR) * f y\<close> from \<open>yR\<close> to infinity. \<open>TyR\<close> takes and returns no console
  and no variables of the caller: it has no side effect.
\<close>

theorem TyR_formula:
  assumes "py_pow th (prm_alpha P) = Inr p" and "prm_lam P + prm_r P \<noteq> 0"
  shows "TyR L yr th P =
           Inr (prm_b P + (prm_A P * p * prm_beta P / (prm_lam P + prm_r P)) *
                            quad L (\<lambda>y. (y - yr) * pdf (prm_F P) y) yr) \<and>
         (0 < th \<longrightarrow> p = th powr prm_alpha P)"
  using assms by (auto simp: TyR_def py_div_def py_pow_def)

theorem TyR_formula_witness:
  "py_pow 1 (prm_alpha prms_eq) = Inr 1 \<and> prm_lam prms_eq + prm_r prms_eq \<noteq> 0 \<and>
   TyR (lib 3) 1 1 prms_eq = Inr 1 \<and> (0 :: real) < 1 \<and> (1 :: real) = 1 powr prm_alpha prms_eq"
  using TyR_formula [where th = 1 and P = prms_eq and p = 1 and L = "lib 3" and yr = 1]
  by (simp add: py_pow_def prms_eq_def lib_def uniform_def trapezoid_def)

subsection \<open>C3: the value of the job-creation residual\<close>

text \<open>
  Claim C3. For \<open>\<theta> > 0\<close> (and \<open>r + \<lambda>\<close> not zero) \<^verbatim>\<open>JCC(\<theta>, yR, prms)\<close> returns
  \<open>c - (A * \<theta> powr \<alpha> * (1 - \<beta>) / (\<theta> * (r + \<lambda>))) * I\<close>, with \<open>I\<close> the same integral as
  in \<open>TyR\<close>.
\<close>

theorem JCC_formula:
  assumes "0 < th" and "prm_r P + prm_lam P \<noteq> 0"
  shows "JCC L th yr P =
           Inr (prm_c P - (prm_A P * th powr prm_alpha P * (1 - prm_beta P) /
                             (th * (prm_r P + prm_lam P))) *
                            quad L (\<lambda>y. (y - yr) * pdf (prm_F P) y) yr)"
  using assms by (simp add: JCC_def py_div_def py_pow_def)

theorem JCC_formula_witness:
  "(0 :: real) < 1 \<and> prm_r prms_eq + prm_lam prms_eq \<noteq> 0 \<and> JCC (lib 3) 1 1 prms_eq = Inr 0"
  using JCC_formula [where th = 1 and P = prms_eq and L = "lib 3" and yr = 1]
  by (simp add: prms_eq_def lib_def uniform_def trapezoid_def)

subsection \<open>C4: the closed form after the loops\<close>

text \<open>
  Claim C4. When the outer loop, started by \<^verbatim>\<open>SolveModel\<close> with \<open>tol < 1\<close>, has
  returned, \<^verbatim>\<open>yrout\<close> and \<^verbatim>\<open>\<theta>1\<close> are bound, and \<^verbatim>\<open>SolveModel\<close> returns the 4-tuple
  \<open>(yrout, \<theta>out, uout, vout)\<close> with \<open>uout = \<lambda> / (A * \<theta>out ** \<alpha> * (1 - F.cdf yrout) + \<lambda>)\<close>
  and \<open>vout = \<theta>out * uout\<close>, provided the power is a real number and the denominator is
  not zero.
\<close>

theorem closed_form_after_loops:
  assumes "tol < 1" and "outer_loop L P tol step start out = Some (Inr s, out1)"
  shows "\<exists>yr th. yrout s = Some yr \<and> th1 s = Some th \<and>
           (\<forall>p. np_pow th (prm_alpha P) = Inr p \<longrightarrow>
                prm_A P * p * (1 - cdf (prm_F P) yr) + prm_lam P \<noteq> 0 \<longrightarrow>
                SolveModel L P tol step out =
                  Some (Inr (yr, th,
                             prm_lam P / (prm_A P * p * (1 - cdf (prm_F P) yr) + prm_lam P),
                             th * (prm_lam P /
                                   (prm_A P * p * (1 - cdf (prm_F P) yr) + prm_lam P))),
                        out1))"
proof -
  from assms(1) have "tol < diftheta start" by (simp add: start_def)
  with outer_binds [OF assms(2)] obtain y t where
    "yrout s = Some y" "th1 s = Some t" by blast
  then show ?thesis
    by (simp add: SolveModel_def assms(2) after_loops_def Let_def)
qed

theorem closed_form_after_loops_witness:
  "(1/1000000 :: real) < 1 \<and>
   outer_loop (lib 3) prms_eq (1/1000000) (1/2) start [] =
     Some (Inr (start\<lparr>yr1 := Some 1, yrout := Some 1, th1 := Some 1, diftheta := 0\<rparr>),
           [Solving_yr, Conv_yr 0, Solving_theta, Conv_theta 0]) \<and>
   np_pow 1 (prm_alpha prms_eq) = Inr 1 \<and>
   prm_A prms_eq * 1 * (1 - cdf (prm_F prms_eq) 1) + prm_lam prms_eq \<noteq> 0 \<and>
   SolveModel (lib 3) prms_eq (1/1000000) (1/2) [] =
     Some (Inr (1, 1, 1/5, 1/5), [Solving_yr, Conv_yr 0, Solving_theta, Conv_theta 0])"
proof -
  have tol: "(1/1000000 :: real) < 1" by simp
  have pw: "np_pow 1 (prm_alpha prms_eq) = Inr 1" by (simp add: np_pow_def py_pow_def)
  have den: "prm_A prms_eq * 1 * (1 - cdf (prm_F prms_eq) 1) + prm_lam prms_eq \<noteq> 0"
    by (simp add: prms_eq_def uniform_def)
  from closed_form_after_loops [OF tol outer_eq] pw den
  have "SolveModel (lib 3) prms_eq (1/1000000) (1/2) [] =
     Some (Inr (1, 1, 1/5, 1/5), [Solving_yr, Conv_yr 0, Solving_theta, Conv_theta 0])"
    by (simp add: start_def prms_eq_def uniform_def)
  with tol pw den outer_eq show ?thesis by (simp only: simp_thms)
qed

subsection \<open>C5: tightness is not checked\<close>

text \<open>
  Claim C5, as the code has it. Evaluated at \<open>\<theta> = 0\<close> on Python numbers, \<^verbatim>\<open>JCC\<close> raises
  \<open>ZeroDivisionError\<close> whatever the other arguments are: no finite value comes back, and
  the exception is Python's own, not one the notebook defines.
\<close>

theorem JCC_at_zero: "JCC L 0 yr P = Inl ZeroDivisionError"
  by (simp add: JCC_def py_div_def py_pow_def)

theorem JCC_at_zero_witness: "JCC (lib 3) 0 1 prms_eq = Inl ZeroDivisionError"
  using JCC_at_zero [of "lib 3" 1 prms_eq] by simp

text \<open>
  Claim C5 asks that a non-positive tightness anywhere in the solve be a failure. On
  \<open>prms_neg\<close> the root finder returns \<open>- 1/4\<close>; with \<open>step = 1\<close> it becomes the next guess,
  the second outer iteration confirms it, and \<^verbatim>\<open>SolveModel\<close> returns it together with a
  negative vacancy rate.
\<close>

theorem negative_tightness_returned:
  "SolveModel (lib 3) prms_neg (1/1000000) 1 [] =
   Some (Inr (1, - (1/4), 4/5, - (1/5)),
         [Solving_yr, Conv_yr 0, Solving_theta, Conv_theta (5/4),
          Solving_yr, Conv_yr 0, Solving_theta, Conv_theta 0])"
  unfolding SolveModel_def outer_neg
  by (simp add: after_loops_def np_pow_def py_pow_def prms_neg_def uniform_def Let_def
        power2_eq_square)

subsection \<open>C6: the loops have no bound\<close>

text \<open>
  Claim C6, as the code has it. There is no iteration cap and no convergence error: if
  the iterates of the inner loop stay in a set \<open>I\<close> on which the undamped difference is
  above \<open>tol\<close>, the call never returns, neither a result nor an exception.
\<close>

theorem no_iteration_cap:
  assumes "tol < 1" and "1 \<in> I"
    and "\<forall>y\<in>I. \<exists>y'. TyR L y 1 P = Inr y' \<and> tol < \<bar>y' - y\<bar> \<and>
                       step * y' + (1 - step) * y \<in> I"
  shows "SolveModel L P tol step out = None"
  using assms by (intro inner_never_solve [where I = I]) auto

theorem no_iteration_cap_witness:
  "(1/1000000 :: real) < 1 \<and> (1 :: real) \<in> {0, 1, 2} \<and>
   TyR (lib 1) 1 1 prms_osc = Inr 0 \<and> TyR (lib 1) 0 1 prms_osc = Inr 2 \<and>
   TyR (lib 1) 2 1 prms_osc = Inr 0 \<and>
   SolveModel (lib 1) prms_osc (1/1000000) 1 [] = None"
proof -
  have a: "(1/1000000 :: real) < 1" by simp
  have b: "(1 :: real) \<in> {0, 1, 2}" by simp
  have c: "\<forall>y\<in>{0, 1, 2}. \<exists>y'. TyR (lib 1) y 1 prms_osc = Inr y' \<and> 1/1000000 < \<bar>y' - y\<bar> \<and>
                       1 * y' + (1 - 1) * y \<in> {0, 1, 2 :: real}"
    using osc_cycle by blast
  from no_iteration_cap [OF a b c] a b TyR_osc show ?thesis by blast
qed

text \<open>
  Claim C6 asks for termination with an error on an oscillating configuration with
  \<open>step = 1\<close>. On \<open>prms_osc\<close> the reservation productivity goes \<open>1, 0, 2, 0, 2, \<dots>\<close> and
  the call does not return.
\<close>

theorem undamped_oscillation_never_returns:
  "SolveModel (lib 1) prms_osc (1/1000000) 1 [] = None"
proof (rule inner_never_solve [where I = "{0, 1, 2}"])
  show "(1/1000000 :: real) < 1" by simp
  show "(1 :: real) \<in> {0, 1, 2}" by simp
  show "\<exists>y'. TyR (lib 1) y 1 prms_osc = Inr y' \<and> 1/1000000 < \<bar>y' - y\<bar> \<and>
             1 * y' + (1 - 1) * y \<in> {0, 1, 2 :: real}" if "y \<in> {0, 1, 2}" for y
    using that by (rule osc_cycle)
qed

subsection \<open>C7: the rates\<close>

text \<open>
  Claim C7, as the code has it. Every returned \<open>(yR, \<theta>, u, v)\<close> has \<open>v = \<theta> * u\<close>. With
  \<open>\<lambda> > 0\<close>, \<open>A \<ge> 0\<close>, \<open>\<theta> > 0\<close> and \<open>F.cdf yR \<le> 1\<close> the unemployment rate satisfies
  \<open>0 < u \<le> 1\<close> and \<open>v \<ge> 0\<close>, and \<open>u < 1\<close> holds exactly when \<open>A > 0\<close> and \<open>F.cdf yR < 1\<close>:
  when no match is acceptable the returned rate is \<open>1\<close>. The sign of \<open>A\<close> is not checked by
  the code and matters: on \<open>prms_drain\<close>, where \<open>A = - 1\<close>, the returned rate is \<open>3\<close>
  (\<open>run_drain\<close>).
\<close>

theorem rates_consistent:
  assumes "SolveModel L P tol step out = Some (Inr (yr, th, u, v), out')"
  shows "v = th * u \<and>
         (0 < prm_lam P \<longrightarrow> 0 \<le> prm_A P \<longrightarrow> 0 < th \<longrightarrow> cdf (prm_F P) yr \<le> 1 \<longrightarrow>
            0 < u \<and> u \<le> 1 \<and> 0 \<le> v \<and>
            (u < 1 \<longleftrightarrow> 0 < prm_A P \<and> cdf (prm_F P) yr < 1))"
proof -
  from assms obtain s where s: "after_loops P s = Inr (yr, th, u, v)"
    by (auto simp: SolveModel_def split: Option.bind_splits sum.splits)
  then obtain p where p: "np_pow th (prm_alpha P) = Inr p"
    and u: "u = prm_lam P / (prm_A P * p * (1 - cdf (prm_F P) yr) + prm_lam P)"
    and v: "v = th * u"
    by (auto simp: after_loops_def Let_def split: option.splits sum.splits if_splits)
  have rest: "0 < u \<and> u \<le> 1 \<and> 0 \<le> v \<and> (u < 1 \<longleftrightarrow> 0 < prm_A P \<and> cdf (prm_F P) yr < 1)"
    if lam: "0 < prm_lam P" and A: "0 \<le> prm_A P" and th: "0 < th"
      and F: "cdf (prm_F P) yr \<le> 1"
  proof -
    define g where "g = prm_A P * p * (1 - cdf (prm_F P) yr)"
    from p th have pp: "0 < p" by (auto simp: np_pow_def py_pow_def)
    have g0: "0 \<le> g" using A pp F by (simp add: g_def)
    have gpos: "0 < g \<longleftrightarrow> 0 < prm_A P \<and> cdf (prm_F P) yr < 1"
      using A pp F by (auto simp: g_def zero_less_mult_iff)
    have uu: "u = prm_lam P / (g + prm_lam P)" by (simp add: u g_def)
    have "0 < u" "u \<le> 1" "u < 1 \<longleftrightarrow> 0 < g" using lam g0 by (simp_all add: uu)
    moreover from \<open>0 < u\<close> th have "0 \<le> v" by (simp add: v)
    ultimately show ?thesis using gpos by simp
  qed
  with v show ?thesis by blast
qed

text \<open>
  On \<open>prms_eq\<close> the rate is \<open>1/5\<close>; on \<open>prms_idle\<close>, where \<open>F.cdf yR = 1\<close>, it is \<open>1\<close>.
\<close>

theorem rates_consistent_witness:
  "SolveModel (lib 3) prms_eq (1/1000000) (1/2) [] =
     Some (Inr (1, 1, 1/5, 1/5), [Solving_yr, Conv_yr 0, Solving_theta, Conv_theta 0]) \<and>
   0 < prm_lam prms_eq \<and> 0 \<le> prm_A prms_eq \<and> (0 :: real) < 1 \<and>
   cdf (prm_F prms_eq) 1 \<le> 1 \<and>
   (1/5 :: real) = 1 * (1/5) \<and> (0 :: real) < 1/5 \<and> (1/5 :: real) \<le> 1 \<and> (0 :: real) \<le> 1/5 \<and>
   ((1/5 :: real) < 1) = (0 < prm_A prms_eq \<and> cdf (prm_F prms_eq) 1 < 1) \<and>
   SolveModel (lib 1) prms_idle (1/1000000) (1/2) [] =
     Some (Inr (1, 1, 1, 1), [Solving_yr, Conv_yr 0, Solving_theta, Conv_theta 0]) \<and>
   0 < prm_lam prms_idle \<and> 0 \<le> prm_A prms_idle \<and> cdf (prm_F prms_idle) 1 \<le> 1 \<and>
   ((1 :: real) < 1) = (0 < prm_A prms_idle \<and> cdf (prm_F prms_idle) 1 < 1)"
proof -
  have a: "0 < prm_lam prms_eq" "0 \<le> prm_A prms_eq" "cdf (prm_F prms_eq) 1 \<le> 1"
    by (simp_all add: prms_eq_def uniform_def)
  have b: "0 < prm_lam prms_idle" "0 \<le> prm_A prms_idle" "cdf (prm_F prms_idle) 1 \<le> 1"
    by (simp_all add: prms_idle_def uniform_def)
  have one: "(0 :: real) < 1" by simp
  from rates_consistent [OF run_eq] a one
  have c: "(1/5 :: real) = 1 * (1/5) \<and> (0 :: real) < 1/5 \<and> (1/5 :: real) \<le> 1 \<and>
           (0 :: real) \<le> 1/5 \<and>
           ((1/5 :: real) < 1) = (0 < prm_A prms_eq \<and> cdf (prm_F prms_eq) 1 < 1)"
    by blast
  from rates_consistent [OF run_idle] b one
  have d: "((1 :: real) < 1) = (0 < prm_A prms_idle \<and> cdf (prm_F prms_idle) 1 < 1)"
    by blast
  from run_eq run_idle a b one c d show ?thesis by (simp only: simp_thms)
qed

text \<open>
  Claim C7 asks for \<open>u < 1\<close> on every returned result with \<open>\<lambda> > 0\<close>. On \<open>prms_idle\<close>
  every productivity is at most \<open>b\<close>, \<open>F.cdf yR = 1\<close>, both loops meet the tolerance at
  once, and the returned unemployment rate is \<open>1\<close>.
\<close>

theorem idle_market_unemployment_one:
  "0 < prm_lam prms_idle \<and>
   SolveModel (lib 1) prms_idle (1/1000000) (1/2) [] =
     Some (Inr (1, 1, 1, 1), [Solving_yr, Conv_yr 0, Solving_theta, Conv_theta 0])"
  using run_idle by (simp add: prms_idle_def)

subsection \<open>C8: no hidden state\<close>



subsection \<open>C9: the two residuals share the integral\<close>

text \<open>
  Claim C9. Where \<^verbatim>\<open>TyR(yR, \<theta>, prms)\<close> returns \<open>t\<close>, \<open>\<theta>\<close> is not zero and \<open>\<beta>\<close> is not zero,
  \<^verbatim>\<open>JCC(\<theta>, yR, prms)\<close> returns \<open>c - ((1 - \<beta>) / (\<beta> * \<theta>)) * (t - b)\<close>.
\<close>

theorem residuals_linked:
  assumes "TyR L yr th P = Inr t" and "th \<noteq> 0" and "prm_beta P \<noteq> 0"
  shows "JCC L th yr P =
           Inr (prm_c P - ((1 - prm_beta P) / (prm_beta P * th)) * (t - prm_b P))"
proof -
  define I where "I = quad L (\<lambda>y. (y - yr) * pdf (prm_F P) y) yr"
  define D where "D = prm_lam P + prm_r P"
  from assms(1) obtain p where p: "py_pow th (prm_alpha P) = Inr p"
    and D: "D \<noteq> 0"
    and t: "t = prm_b P + (prm_A P * p * prm_beta P / D) * I"
    by (auto simp: TyR_def py_div_def Let_def I_def D_def split: sum.splits if_splits)
  have rl: "prm_r P + prm_lam P = D" by (simp add: D_def)
  have "JCC L th yr P = Inr (prm_c P - (prm_A P * p * (1 - prm_beta P) / (th * D)) * I)"
    using D assms(2) by (simp add: JCC_def p py_div_def I_def rl)
  also have "(prm_A P * p * (1 - prm_beta P) / (th * D)) * I =
             ((1 - prm_beta P) / (prm_beta P * th)) * (t - prm_b P)"
    unfolding t using link_algebra [OF assms(3,2) D] by simp
  finally show ?thesis .
qed

theorem residuals_linked_witness:
  "TyR (lib 3) 1 1 prms_eq = Inr 1 \<and> (1 :: real) \<noteq> 0 \<and> prm_beta prms_eq \<noteq> 0 \<and>
   JCC (lib 3) 1 1 prms_eq = Inr 0"
  using residuals_linked [OF TyR_eq] TyR_eq
  by (simp add: prms_eq_def)

subsection \<open>C10: a tolerance of one or more\<close>



end
